theory Spec2Isabelle
  imports Main "HOL-Library.Word"
begin

section \<open>Exceptions, results and effects\<close>

text \<open>
  An embedding of \<^verbatim>\<open>captcha.py\<close>. A Python exception is a value: a computation that
  can raise returns \<open>error + 'a\<close>, \<open>Inl\<close> carrying the exception. A computation that
  draws random numbers also takes the state of the generator it draws from and returns the
  state it leaves behind, which survives an exception as it does in Python.
  \<open>PillowError name\<close> is an exception that Pillow raises for a reason the program does not
  determine (see \<open>pillow_raises\<close> below). A Python
  \<^verbatim>\<open>int\<close> is an \<open>int\<close>; a Python string is a \<open>string\<close>, one \<open>char\<close> for each of its
  characters.
\<close>

datatype error =
    IndexError | ValueError | ZeroDivisionError | OverflowError | OSError
  | PillowError string

definition ret :: "'a \<Rightarrow> 's \<Rightarrow> (error + 'a) \<times> 's" where
  "ret x s = (Inr x, s)"

definition lift :: "error + 'a \<Rightarrow> 's \<Rightarrow> (error + 'a) \<times> 's" where
  "lift r s = (r, s)"

definition bnd ::
  "('s \<Rightarrow> (error + 'a) \<times> 's) \<Rightarrow> ('a \<Rightarrow> 's \<Rightarrow> (error + 'b) \<times> 's) \<Rightarrow> 's \<Rightarrow> (error + 'b) \<times> 's"
where
  "bnd m f s = (case m s of (Inl e, s') \<Rightarrow> (Inl e, s') | (Inr x, s') \<Rightarrow> f x s')"

text \<open>A \<^verbatim>\<open>for\<close> loop over a list that updates one value and stops at the first exception.\<close>

primrec for_each ::
  "'a list \<Rightarrow> ('a \<Rightarrow> 'b \<Rightarrow> 's \<Rightarrow> (error + 'b) \<times> 's) \<Rightarrow> 'b \<Rightarrow> 's \<Rightarrow> (error + 'b) \<times> 's"
where
  "for_each [] body acc = ret acc"
| "for_each (x # xs) body acc = bnd (body x acc) (for_each xs body)"

text \<open>A comprehension whose elements can raise: the first exception ends it.\<close>

primrec sequence :: "(error + 'a) list \<Rightarrow> error + 'a list" where
  "sequence [] = Inr []"
| "sequence (r # rs) =
     (case r of
        Inl e \<Rightarrow> Inl e
      | Inr x \<Rightarrow> (case sequence rs of Inl e \<Rightarrow> Inl e | Inr xs \<Rightarrow> Inr (x # xs)))"

text \<open>Subscription \<^verbatim>\<open>xs[i]\<close> of a sequence of length \<open>n\<close>: the indices \<open>0\<close> to
  \<open>n - 1\<close> read from the front, \<open>-n\<close> to \<open>-1\<close> from the back, every other index raises
  IndexError.\<close>

definition getitem :: "'a list \<Rightarrow> int \<Rightarrow> error + 'a" where
  "getitem xs i =
     (if 0 \<le> i \<and> i < int (length xs) then Inr (xs ! nat i)
      else if - int (length xs) \<le> i \<and> i < 0 then Inr (xs ! nat (int (length xs) + i))
      else Inl IndexError)"

text \<open>\<^verbatim>\<open>sep.join(parts)\<close>.\<close>

fun join :: "'a list \<Rightarrow> 'a list list \<Rightarrow> 'a list" where
  "join sep [] = []"
| "join sep [x] = x"
| "join sep (x # y # ys) = x @ sep @ join sep (y # ys)"

section \<open>Fonts and images\<close>

text \<open>
  A font handle is named by what produced it: \<^verbatim>\<open>ImageFont.truetype(path, size)\<close> or
  \<^verbatim>\<open>ImageFont.load_default()\<close>.
\<close>

datatype font = FreeTypeFont string int | DefaultFont

text \<open>
  An image is represented by the Pillow calls that built it, with their arguments: Pillow's
  operations are functions of their arguments, so two images built by the same calls have
  the same pixels. \<^verbatim>\<open>resize\<close> gives an image of the size asked for; a drawing call, a
  filter, a composite and a pixel write keep the size and the mode of the image they work
  on; \<^verbatim>\<open>convert\<close> keeps the size. A colour is a name, a tuple of bands, or one level of
  gray.
\<close>

datatype colour = Named string | Tuple "int list" | Level int

datatype 'f image =
    New string "int \<times> int" colour
  | DrawText "'f image" "int \<times> int" char font colour
  | Resize "'f image" "int \<times> int"
  | DrawLine "'f image" "(int \<times> int) list" colour int
  | DrawEllipse "'f image" "int list" colour
  | DrawRectangle "'f image" "int list" colour
  | DrawArc "'f image" "int list" int int colour
  | DrawChord "'f image" "int list" int int colour
  | DrawPolygon "'f image" "(int \<times> int) list" colour
  | GaussianBlur "'f image" 'f
  | AlphaComposite "'f image" "'f image"
  | PutPixel "'f image" "int \<times> int" colour
  | Convert "'f image" string

fun image_size :: "'f image \<Rightarrow> int \<times> int" where
  "image_size (New m sz c) = sz"
| "image_size (DrawText img xy ch f c) = image_size img"
| "image_size (Resize img sz) = sz"
| "image_size (DrawLine img pts c t) = image_size img"
| "image_size (DrawEllipse img box c) = image_size img"
| "image_size (DrawRectangle img box c) = image_size img"
| "image_size (DrawArc img box s e c) = image_size img"
| "image_size (DrawChord img box s e c) = image_size img"
| "image_size (DrawPolygon img pts c) = image_size img"
| "image_size (GaussianBlur img r) = image_size img"
| "image_size (AlphaComposite img over) = image_size img"
| "image_size (PutPixel img xy c) = image_size img"
| "image_size (Convert img m) = image_size img"

fun image_mode :: "'f image \<Rightarrow> string" where
  "image_mode (New m sz c) = m"
| "image_mode (DrawText img xy ch f c) = image_mode img"
| "image_mode (Resize img sz) = image_mode img"
| "image_mode (DrawLine img pts c t) = image_mode img"
| "image_mode (DrawEllipse img box c) = image_mode img"
| "image_mode (DrawRectangle img box c) = image_mode img"
| "image_mode (DrawArc img box s e c) = image_mode img"
| "image_mode (DrawChord img box s e c) = image_mode img"
| "image_mode (DrawPolygon img pts c) = image_mode img"
| "image_mode (GaussianBlur img r) = image_mode img"
| "image_mode (AlphaComposite img over) = image_mode img"
| "image_mode (PutPixel img xy c) = image_mode img"
| "image_mode (Convert img m) = m"

definition image_width :: "'f image \<Rightarrow> int" where
  "image_width img = fst (image_size img)"

definition image_height :: "'f image \<Rightarrow> int" where
  "image_height img = snd (image_size img)"

section \<open>The libraries the program calls\<close>

text \<open>
  What \<^verbatim>\<open>random\<close>, Pillow, the file system and float arithmetic contribute is a parameter
  of the model: \<open>'r\<close> is the state of a generator, \<open>'f\<close> the type of floats.
  \<^item> \<open>seeded seed\<close>: the state of \<^verbatim>\<open>random.Random(seed)\<close>;
  \<^item> \<open>randbelow_draw n\<close>: the draw behind \<^verbatim>\<open>_randbelow(n)\<close>, which serves
    \<^verbatim>\<open>randint\<close> and \<^verbatim>\<open>choice\<close>;
  \<^item> \<open>index_draw n\<close>: the draw behind \<^verbatim>\<open>floor(random() * n)\<close>, which serves
    \<^verbatim>\<open>choices\<close>;
  \<^item> \<open>random_lt_half\<close>: \<^verbatim>\<open>rng.random() < 0.5\<close>;
  \<^item> \<open>truetype_error path size\<close>: the exception \<^verbatim>\<open>ImageFont.truetype(path, size)\<close>
    raises (a missing or corrupt file, a size that is not positive), \<open>None\<close> when it
    returns the font;
  \<^item> \<open>pillow_raises img\<close>: the name of the exception that the last call of the history
    \<open>img\<close> raises for a reason the program does not determine, \<open>None\<close> when the call
    returns. Pillow fails when it finds no memory for an image and when an argument is
    beyond what its C code holds (a coordinate of \<^verbatim>\<open>draw.text\<close> far outside the image):
    which calls those are depends on the machine, the font and the glyph;
  \<^item> \<open>getdata img\<close>: the pixels \<^verbatim>\<open>img.getdata()\<close> gives for an image of mode L, row by
    row; a pixel of mode L is a byte;
  \<^item> \<open>float_positive x\<close>: \<^verbatim>\<open>x > 0\<close>;
  \<^item> \<open>int_of_product n x\<close>: \<^verbatim>\<open>int(n * x)\<close>, which raises for an infinite or NaN product.
\<close>

record ('r, 'f) pylib =
  seeded :: "int \<Rightarrow> 'r"
  randbelow_draw :: "nat \<Rightarrow> 'r \<Rightarrow> nat \<times> 'r"
  index_draw :: "nat \<Rightarrow> 'r \<Rightarrow> nat \<times> 'r"
  random_lt_half :: "'r \<Rightarrow> bool \<times> 'r"
  truetype_error :: "string \<Rightarrow> int \<Rightarrow> error option"
  pillow_raises :: "'f image \<Rightarrow> string option"
  getdata :: "'f image \<Rightarrow> 8 word list"
  float_positive :: "'f \<Rightarrow> bool"
  int_of_product :: "int \<Rightarrow> 'f \<Rightarrow> error + int"

text \<open>
  \<^verbatim>\<open>_randbelow(n)\<close> returns a member of \<^verbatim>\<open>range(n)\<close> and \<^verbatim>\<open>random()\<close> a float of
  \<open>[0, 1)\<close>, so that \<^verbatim>\<open>floor(random() * n)\<close> is a member of \<^verbatim>\<open>range(n)\<close> too. The
  reduction modulo \<open>n\<close> writes these ranges into the model: every generator that keeps
  them is an instance, with its own results as the draws.
\<close>

definition randbelow :: "('r, 'f) pylib \<Rightarrow> nat \<Rightarrow> 'r \<Rightarrow> nat \<times> 'r" where
  "randbelow lib n s = (let (k, s') = randbelow_draw lib n s in (k mod n, s'))"

definition random_index :: "('r, 'f) pylib \<Rightarrow> nat \<Rightarrow> 'r \<Rightarrow> nat \<times> 'r" where
  "random_index lib n s = (let (k, s') = index_draw lib n s in (k mod n, s'))"

text \<open>\<^verbatim>\<open>randint(a, b)\<close> is \<^verbatim>\<open>randrange(a, b + 1)\<close>: ValueError on an empty range,
  \<^verbatim>\<open>a + _randbelow(b + 1 - a)\<close> otherwise.\<close>

definition randint :: "('r, 'f) pylib \<Rightarrow> int \<Rightarrow> int \<Rightarrow> 'r \<Rightarrow> (error + int) \<times> 'r" where
  "randint lib a b s =
     (if b + 1 - a \<le> 0 then (Inl ValueError, s)
      else let (k, s') = randbelow lib (nat (b + 1 - a)) s in (Inr (a + int k), s'))"

text \<open>\<^verbatim>\<open>choice(seq)\<close>: IndexError on an empty sequence, \<^verbatim>\<open>seq[_randbelow(len(seq))]\<close>
  otherwise.\<close>

definition choice :: "('r, 'f) pylib \<Rightarrow> 'a list \<Rightarrow> 'r \<Rightarrow> (error + 'a) \<times> 'r" where
  "choice lib seq s =
     (if seq = [] then (Inl IndexError, s)
      else let (k, s') = randbelow lib (length seq) s in (getitem seq (int k), s'))"

text \<open>\<^verbatim>\<open>choices(population, k=k)\<close> is
  \<^verbatim>\<open>[population[floor(random() * n)] for i in repeat(None, k)]\<close>.\<close>

primrec choices ::
  "('r, 'f) pylib \<Rightarrow> 'a list \<Rightarrow> nat \<Rightarrow> 'r \<Rightarrow> (error + 'a list) \<times> 'r"
where
  "choices lib population 0 = ret []"
| "choices lib population (Suc k) =
     bnd (\<lambda>s. let (i, s') = random_index lib (length population) s
              in (getitem population (int i), s'))
       (\<lambda>x. bnd (choices lib population k) (\<lambda>xs. ret (x # xs)))"

text \<open>
  The \<^verbatim>\<open>rng\<close> argument of \<^verbatim>\<open>generate_code\<close> and \<^verbatim>\<open>make_image\<close> is \<open>Some s\<close> for a
  \<^verbatim>\<open>random.Random\<close> instance in state \<open>s\<close>, and \<open>None\<close> when no instance is passed or the
  \<^verbatim>\<open>random\<close> module itself is: \<^verbatim>\<open>rng = rng or random\<close> then draws from the module's
  generator, the one every caller in the process shares, whose state is \<open>g\<close>.
\<close>

definition with_rng :: "'r option \<Rightarrow> ('r \<Rightarrow> 'a \<times> 'r) \<Rightarrow> 'r \<Rightarrow> 'a \<times> 'r option \<times> 'r" where
  "with_rng rng body g =
     (case rng of
        Some s \<Rightarrow> (let (x, s') = body s in (x, Some s', g))
      | None \<Rightarrow> (let (x, g') = body g in (x, None, g')))"

section \<open>Code generator\<close>

definition alphabet :: string where
  "alphabet = ''ABCDEFGHIJKLMNOPQRSTUVWXYZ'' @ ''0123456789''"

text \<open>\<^verbatim>\<open>range\<close> and \<^verbatim>\<open>repeat\<close> run zero times on a negative count, hence \<open>nat len\<close> for the
  argument \<^verbatim>\<open>length\<close>.\<close>

definition generate_code ::
  "('r, 'f) pylib \<Rightarrow> int \<Rightarrow> 'r option \<Rightarrow> 'r \<Rightarrow> (error + string) \<times> 'r option \<times> 'r"
where
  "generate_code lib len rng g = with_rng rng (choices lib alphabet (nat len)) g"

section \<open>Font resolver\<close>

definition truetype :: "('r, 'f) pylib \<Rightarrow> string \<Rightarrow> int \<Rightarrow> error + font" where
  "truetype lib path sz =
     (case truetype_error lib path sz of
        None \<Rightarrow> Inr (FreeTypeFont path sz)
      | Some e \<Rightarrow> Inl e)"

text \<open>\<^verbatim>\<open>ImageFont.load_default()\<close>: the font is part of Pillow itself and needs no file; the
  call is taken to return.\<close>

definition load_default :: "error + font" where
  "load_default = Inr DefaultFont"

definition font_candidates :: "string option \<Rightarrow> string list" where
  "font_candidates preferred =
     (case preferred of None \<Rightarrow> [] | Some p \<Rightarrow> if p = [] then [] else [p])
     @ [''consola.ttf'',
        ''DejaVuSansMono.ttf'',
        ''/usr/share/fonts/truetype/dejavu/DejaVuSansMono.ttf'',
        ''Menlo.ttf'',
        ''Courier New.ttf'']"

text \<open>The loop over the candidates: an empty path is skipped; the font of the first call of
  \<^verbatim>\<open>truetype\<close> that returns is returned; an exception of \<^verbatim>\<open>truetype\<close> is caught by
  \<^verbatim>\<open>except Exception: pass\<close> and the next candidate tried; after the last one,
  \<^verbatim>\<open>ImageFont.load_default()\<close>, whose exception, if it had one, would leave the function.\<close>

fun try_fonts :: "('r, 'f) pylib \<Rightarrow> string list \<Rightarrow> int \<Rightarrow> error + font" where
  "try_fonts lib [] sz = load_default"
| "try_fonts lib (path # rest) sz =
     (if path = [] then try_fonts lib rest sz
      else case truetype lib path sz of
             Inr f \<Rightarrow> Inr f
           | Inl e \<Rightarrow> try_fonts lib rest sz)"

definition load_font :: "('r, 'f) pylib \<Rightarrow> string option \<Rightarrow> int \<Rightarrow> error + font" where
  "load_font lib preferred sz = try_fonts lib (font_candidates preferred) sz"

section \<open>Calls of Pillow\<close>

text \<open>A call of Pillow returns the image its history names, unless \<open>pillow_raises\<close> says
  that it raises.\<close>

definition pillow :: "('r, 'f) pylib \<Rightarrow> 'f image \<Rightarrow> error + 'f image" where
  "pillow lib img =
     (case pillow_raises lib img of None \<Rightarrow> Inr img | Some name \<Rightarrow> Inl (PillowError name))"

text \<open>\<^verbatim>\<open>Image.new(mode, size, color)\<close>: ValueError for a negative width or height, then
  OverflowError for a width or height above \<open>2^31 - 1\<close>, which a C \<^verbatim>\<open>int\<close> does not
  hold.\<close>

definition image_new ::
  "('r, 'f) pylib \<Rightarrow> string \<Rightarrow> int \<times> int \<Rightarrow> colour \<Rightarrow> error + 'f image"
where
  "image_new lib m sz c =
     (if fst sz < 0 \<or> snd sz < 0 then Inl ValueError
      else if 2147483647 < fst sz \<or> 2147483647 < snd sz then Inl OverflowError
      else pillow lib (New m sz c))"

text \<open>\<^verbatim>\<open>Image.alpha_composite(im1, im2)\<close>: ValueError unless the two images have the same
  size and mode.\<close>

definition alpha_composite ::
  "('r, 'f) pylib \<Rightarrow> 'f image \<Rightarrow> 'f image \<Rightarrow> error + 'f image"
where
  "alpha_composite lib im1 im2 =
     (if image_size im1 = image_size im2 \<and> image_mode im1 = image_mode im2
      then pillow lib (AlphaComposite im1 im2) else Inl ValueError)"

text \<open>\<^verbatim>\<open>pixels[x, y] = c\<close> on the object \<^verbatim>\<open>img.load()\<close> returns: a negative coordinate
  counts from the far edge, any other one outside the image raises IndexError.\<close>

definition putpixel :: "'f image \<Rightarrow> int \<times> int \<Rightarrow> colour \<Rightarrow> error + 'f image" where
  "putpixel img xy c =
     (let x = (if fst xy < 0 then image_width img + fst xy else fst xy);
          y = (if snd xy < 0 then image_height img + snd xy else snd xy)
      in if 0 \<le> x \<and> x < image_width img \<and> 0 \<le> y \<and> y < image_height img
         then Inr (PutPixel img xy c) else Inl IndexError)"

section \<open>Glyph rasteriser, ASCII mapper and glyph composer\<close>

definition ASCII_CHARS :: string where
  "ASCII_CHARS = ''$@B%8&WM# ''"

text \<open>The index \<^verbatim>\<open>p * (len(ascii_chars) - 1) // 255\<close>; \<^verbatim>\<open>//\<close> rounds down, as \<open>div\<close>
  on \<open>int\<close> does.\<close>

definition palette_index :: "string \<Rightarrow> int \<Rightarrow> int" where
  "palette_index ascii_chars p = p * (int (length ascii_chars) - 1) div 255"

definition map_pixel :: "string \<Rightarrow> int \<Rightarrow> error + char" where
  "map_pixel ascii_chars p = getitem ascii_chars (palette_index ascii_chars p)"

text \<open>\<^verbatim>\<open>"".join(ascii_chars[...] for p in pixels)\<close>.\<close>

definition map_pixels :: "string \<Rightarrow> int list \<Rightarrow> error + string" where
  "map_pixels ascii_chars pixels = sequence (map (map_pixel ascii_chars) pixels)"

text \<open>\<^verbatim>\<open>[s[i : i + w] for i in range(0, len(s), w)]\<close>, for a step \<open>w\<close> of at least 1.\<close>

definition slice_rows :: "nat \<Rightarrow> 'a list \<Rightarrow> 'a list list" where
  "slice_rows w s = map (\<lambda>k. take w (drop (k * w) s)) [0 ..< (length s + w - 1) div w]"

text \<open>
  The body of the loop over the characters of the code, in two parts. First the glyph: a
  white square of mode L with the character drawn in black at (10, 10), resized;
  \<^verbatim>\<open>img.width // scale\<close> raises ZeroDivisionError for a zero scale. The palette plays no
  part in it.
\<close>

definition glyph_image ::
  "('r, 'f) pylib \<Rightarrow> font \<Rightarrow> int \<Rightarrow> int \<Rightarrow> char \<Rightarrow> error + 'f image"
where
  "glyph_image lib font font_size scale ch =
     (case image_new lib ''L'' (font_size * 2, font_size * 2) (Level 255) of
        Inl e \<Rightarrow> Inl e
      | Inr img \<Rightarrow>
          (case pillow lib (DrawText img (10, 10) ch font (Level 0)) of
             Inl e \<Rightarrow> Inl e
           | Inr img \<Rightarrow>
               if scale = 0 then Inl ZeroDivisionError
               else pillow lib (Resize img (max 1 (image_width img div scale),
                                            max 1 (image_height img div scale)))))"

text \<open>Then the mapping of its pixels to palette characters, cut into rows of the width of
  the image.\<close>

definition ascii_block ::
  "('r, 'f) pylib \<Rightarrow> font \<Rightarrow> int \<Rightarrow> int \<Rightarrow> string \<Rightarrow> char \<Rightarrow> error + string list"
where
  "ascii_block lib font font_size scale ascii_chars ch =
     (case glyph_image lib font font_size scale ch of
        Inl e \<Rightarrow> Inl e
      | Inr img \<Rightarrow>
          (case map_pixels ascii_chars (map uint (getdata lib img)) of
             Inl e \<Rightarrow> Inl e
           | Inr ascii_str \<Rightarrow> Inr (slice_rows (nat (image_width img)) ascii_str)))"

text \<open>The rows of the canvas: row \<open>r\<close> of every block, joined by three spaces, for every
  \<open>r\<close> of \<^verbatim>\<open>range(len(blocks[0]))\<close>.\<close>

definition combine_blocks :: "string list list \<Rightarrow> error + string list" where
  "combine_blocks blocks =
     (case getitem blocks 0 of
        Inl e \<Rightarrow> Inl e
      | Inr b0 \<Rightarrow>
          sequence (map (\<lambda>r. case sequence (map (\<lambda>b. getitem b (int r)) blocks) of
                               Inl e \<Rightarrow> Inl e
                             | Inr parts \<Rightarrow> Inr (join ''   '' parts))
                        [0 ..< length b0]))"

definition text_to_ascii_lines ::
  "('r, 'f) pylib \<Rightarrow> string \<Rightarrow> string option \<Rightarrow> int \<Rightarrow> int \<Rightarrow> string \<Rightarrow> error + string list"
where
  "text_to_ascii_lines lib text font_path font_size scale ascii_chars =
     (if text = [] then Inr []
      else case load_font lib font_path font_size of
             Inl e \<Rightarrow> Inl e
           | Inr font \<Rightarrow>
               (case sequence (map (ascii_block lib font font_size scale ascii_chars)
                                   (filter (\<lambda>ch. ch \<noteq> CHR '' '') text)) of
                  Inl e \<Rightarrow> Inl e
                | Inr blocks \<Rightarrow> combine_blocks blocks))"

section \<open>Configuration records\<close>

record TextToAsciiParams =
  font_path :: "string option"
  font_size :: int
  scale :: int

record 'f RenderParams =
  font_path :: "string option"
  font_size :: int
  spacing :: int
  noise_lines :: int
  blur_shapes :: int
  apply_blur :: bool
  extra_noise_shapes :: int
  pixel_noise_density :: 'f
  jitter :: int
  gaussian_blur_radius :: 'f
  shape_blur_radius :: 'f

record 'f AppConfig =
  "output" :: string
  print_code :: bool
  data_url_output :: "string option"
  code_length :: int
  random_seed :: "int option"
  fixed_code :: "string option"
  ascii_chars :: string
  text_to_ascii :: TextToAsciiParams
  render :: "'f RenderParams"

section \<open>Distortion renderer\<close>

text \<open>The text layer: every character of every line, drawn at its cell with a jitter.\<close>

definition draw_char ::
  "('r, 'f) pylib \<Rightarrow> 'f RenderParams \<Rightarrow> font \<Rightarrow> int \<Rightarrow> int \<Rightarrow> nat \<Rightarrow> nat \<times> char \<Rightarrow>
   'f image \<Rightarrow> 'r \<Rightarrow> (error + 'f image) \<times> 'r"
where
  "draw_char lib params font char_w char_h r cell img =
     bnd (randint lib (- jitter params) (jitter params)) (\<lambda>jx.
     bnd (randint lib (- jitter params) (jitter params)) (\<lambda>jy.
     lift (pillow lib
             (DrawText img (int (fst cell) * char_w + jx, int r * char_h + jy) (snd cell) font
                (Tuple [0, 0, 0, 255])))))"

definition draw_text_layer ::
  "('r, 'f) pylib \<Rightarrow> 'f RenderParams \<Rightarrow> font \<Rightarrow> int \<Rightarrow> int \<Rightarrow> string list \<Rightarrow>
   'f image \<Rightarrow> 'r \<Rightarrow> (error + 'f image) \<times> 'r"
where
  "draw_text_layer lib params font char_w char_h ascii_lines =
     for_each (enumerate 0 ascii_lines)
       (\<lambda>row. for_each (enumerate 0 (snd row))
                 (draw_char lib params font char_w char_h (fst row)))"

text \<open>One random gray line.\<close>

definition noise_line ::
  "('r, 'f) pylib \<Rightarrow> int \<Rightarrow> int \<Rightarrow> 'f image \<Rightarrow> 'r \<Rightarrow> (error + 'f image) \<times> 'r"
where
  "noise_line lib width height img =
     bnd (randint lib 0 width) (\<lambda>x1.
     bnd (randint lib 0 height) (\<lambda>y1.
     bnd (randint lib 0 width) (\<lambda>x2.
     bnd (randint lib 0 height) (\<lambda>y2.
     bnd (randint lib 100 180) (\<lambda>g.
     bnd (randint lib 1 2) (\<lambda>t.
     lift (pillow lib (DrawLine img [(x1, y1), (x2, y2)] (Tuple [g, g, g, 255]) t))))))))"

text \<open>One translucent ellipse or rectangle on the overlay.\<close>

definition blur_shape ::
  "('r, 'f) pylib \<Rightarrow> int \<Rightarrow> int \<Rightarrow> 'f image \<Rightarrow> 'r \<Rightarrow> (error + 'f image) \<times> 'r"
where
  "blur_shape lib width height img =
     bnd (randint lib 0 (max 0 (width - 30))) (\<lambda>x1.
     bnd (randint lib 0 (max 0 (height - 30))) (\<lambda>y1.
     bnd (randint lib 15 50) (\<lambda>dx.
     bnd (randint lib 15 50) (\<lambda>dy.
     bnd (randint lib 90 160) (\<lambda>g.
     bnd (randint lib 60 120) (\<lambda>a.
     bnd (\<lambda>s. let (b, s') = random_lt_half lib s in (Inr b, s')) (\<lambda>b.
     lift (pillow lib
             (if b then DrawEllipse img [x1, y1, x1 + dx, y1 + dy] (Tuple [g, g, g, a])
              else DrawRectangle img [x1, y1, x1 + dx, y1 + dy] (Tuple [g, g, g, a]))))))))))"

text \<open>One arc, chord, triangle or circle on the overlay.\<close>

definition extra_shape ::
  "('r, 'f) pylib \<Rightarrow> int \<Rightarrow> int \<Rightarrow> 'f image \<Rightarrow> 'r \<Rightarrow> (error + 'f image) \<times> 'r"
where
  "extra_shape lib width height img =
     bnd (randint lib 0 (max 0 (width - 50))) (\<lambda>x1.
     bnd (randint lib 0 (max 0 (height - 50))) (\<lambda>y1.
     bnd (randint lib 10 50) (\<lambda>dx.
     bnd (randint lib 10 50) (\<lambda>dy.
     bnd (randint lib 60 180) (\<lambda>g.
     bnd (randint lib 40 100) (\<lambda>a.
     bnd (choice lib [''arc'', ''chord'', ''triangle'', ''circle'']) (\<lambda>kind.
     let x2 = x1 + dx; y2 = y1 + dy in
     if kind = ''arc'' then
       bnd (randint lib 0 360) (\<lambda>s.
       bnd (randint lib 0 360) (\<lambda>e.
       lift (pillow lib (DrawArc img [x1, y1, x2, y2] s e (Tuple [g, g, g])))))
     else if kind = ''chord'' then
       bnd (randint lib 0 360) (\<lambda>s.
       bnd (randint lib 0 360) (\<lambda>e.
       lift (pillow lib (DrawChord img [x1, y1, x2, y2] s e (Tuple [g, g, g, a])))))
     else if kind = ''triangle'' then
       lift (pillow lib
               (DrawPolygon img [(x1, y1), (x2, y1), ((x1 + x2) div 2, y2)] (Tuple [g, g, g, a])))
     else
       (let r = (x2 - x1) div 2
        in lift (pillow lib
                   (DrawEllipse img [x1, y1, x1 + r * 2, y1 + r * 2] (Tuple [g, g, g, a])))))))))))"

text \<open>One speckle.\<close>

definition pixel_noise ::
  "('r, 'f) pylib \<Rightarrow> int \<Rightarrow> int \<Rightarrow> 'f image \<Rightarrow> 'r \<Rightarrow> (error + 'f image) \<times> 'r"
where
  "pixel_noise lib width height img =
     bnd (randint lib 0 (width - 1)) (\<lambda>x.
     bnd (randint lib 0 (height - 1)) (\<lambda>y.
     bnd (randint lib 0 255) (\<lambda>v.
     lift (putpixel img (x, y) (Tuple [v, v, v, 255])))))"

text \<open>\<^verbatim>\<open>for _ in range(n)\<close>.\<close>

definition repeat ::
  "int \<Rightarrow> ('b \<Rightarrow> 's \<Rightarrow> (error + 'b) \<times> 's) \<Rightarrow> 'b \<Rightarrow> 's \<Rightarrow> (error + 'b) \<times> 's"
where
  "repeat n body = for_each [0 ..< nat n] (\<lambda>_. body)"

text \<open>The overlay: a transparent image, the shapes, and the blur when its radius is
  positive.\<close>

definition shape_layer ::
  "('r, 'f) pylib \<Rightarrow> 'f RenderParams \<Rightarrow> int \<Rightarrow> int \<Rightarrow> 'r \<Rightarrow> (error + 'f image) \<times> 'r"
where
  "shape_layer lib params width height =
     bnd (lift (image_new lib ''RGBA'' (width, height) (Tuple [255, 255, 255, 0]))) (\<lambda>shape.
     bnd (repeat (blur_shapes params) (blur_shape lib width height) shape) (\<lambda>shape.
     bnd (repeat (extra_noise_shapes params) (extra_shape lib width height) shape) (\<lambda>shape.
     if float_positive lib (shape_blur_radius params)
     then lift (pillow lib (GaussianBlur shape (shape_blur_radius params)))
     else ret shape)))"

text \<open>The body of \<^verbatim>\<open>make_image\<close>, on the generator \<^verbatim>\<open>rng or random\<close> names.\<close>

definition render_lines ::
  "('r, 'f) pylib \<Rightarrow> string list \<Rightarrow> 'f RenderParams \<Rightarrow> 'r \<Rightarrow> (error + 'f image) \<times> 'r"
where
  "render_lines lib ascii_lines params =
     (if ascii_lines = [] then lift (image_new lib ''RGB'' (2, 2) (Named ''white''))
      else
        let char_w = font_size params div 2 + spacing params;
            char_h = font_size params + 2;
            width = char_w * int (Max (set (map length ascii_lines)));
            height = char_h * int (length ascii_lines)
        in
        bnd (lift (image_new lib ''RGBA'' (width, height) (Tuple [255, 255, 255, 255]))) (\<lambda>base.
        bnd (lift (load_font lib (RenderParams.font_path params) (font_size params))) (\<lambda>font.
        bnd (draw_text_layer lib params font char_w char_h ascii_lines base) (\<lambda>base.
        bnd (repeat (noise_lines params) (noise_line lib width height) base) (\<lambda>base.
        bnd (shape_layer lib params width height) (\<lambda>shape.
        bnd (lift (alpha_composite lib base shape)) (\<lambda>base.
        bnd (lift (int_of_product lib (width * height) (pixel_noise_density params))) (\<lambda>n.
        bnd (repeat n (pixel_noise lib width height) base) (\<lambda>base.
        bnd (if apply_blur params \<and> float_positive lib (gaussian_blur_radius params)
             then lift (pillow lib (GaussianBlur base (gaussian_blur_radius params)))
             else ret base) (\<lambda>base.
        lift (pillow lib (Convert base ''RGB''))))))))))))"

definition make_image ::
  "('r, 'f) pylib \<Rightarrow> string list \<Rightarrow> 'f RenderParams \<Rightarrow> 'r option \<Rightarrow> 'r \<Rightarrow>
   (error + 'f image) \<times> 'r option \<times> 'r"
where
  "make_image lib ascii_lines params rng g = with_rng rng (render_lines lib ascii_lines params) g"

section \<open>The generation entry point\<close>

text \<open>
  \<^verbatim>\<open>cfg.fixed_code or generate_code(...)\<close> takes the fixed code when it is neither
  \<^verbatim>\<open>None\<close> nor empty. The result is the returned pair or the exception, and the state of
  the module's generator after the call.
\<close>

definition generate_image_from_cfg ::
  "('r, 'f) pylib \<Rightarrow> 'f AppConfig \<Rightarrow> 'r \<Rightarrow> (error + 'f image \<times> string) \<times> 'r"
where
  "generate_image_from_cfg lib cfg g =
     (let rng = map_option (seeded lib) (random_seed cfg);
          (code_result, rng, g) =
             (case fixed_code cfg of
                None \<Rightarrow> generate_code lib (code_length cfg) rng g
              | Some c \<Rightarrow> if c = [] then generate_code lib (code_length cfg) rng g
                          else (Inr c, rng, g))
      in case code_result of
           Inl e \<Rightarrow> (Inl e, g)
         | Inr code \<Rightarrow>
             (case text_to_ascii_lines lib code
                     (TextToAsciiParams.font_path (text_to_ascii cfg))
                     (TextToAsciiParams.font_size (text_to_ascii cfg))
                     (scale (text_to_ascii cfg))
                     (ascii_chars cfg) of
                Inl e \<Rightarrow> (Inl e, g)
              | Inr ascii_lines \<Rightarrow>
                  (let (img_result, rng, g) = make_image lib ascii_lines (render cfg) rng g
                   in case img_result of
                        Inl e \<Rightarrow> (Inl e, g)
                      | Inr img \<Rightarrow> (Inr (img, code), g))))"

section \<open>A small instance of the libraries\<close>

text \<open>
  A generator whose state is a counter and whose draws are the counter, a file system
  that holds one font, a Pillow that never runs out of memory and whose glyphs alternate
  black and white pixels, and floats given in thousandths.
\<close>

definition toy_lib :: "(nat, int) pylib" where
  "toy_lib =
     \<lparr> seeded = (\<lambda>seed. nat \<bar>seed\<bar>),
       randbelow_draw = (\<lambda>n s. (s, Suc s)),
       index_draw = (\<lambda>n s. (s, Suc s)),
       random_lt_half = (\<lambda>s. (even s, Suc s)),
       truetype_error = (\<lambda>path sz.
          if path = ''DejaVuSansMono.ttf'' then (if 0 < sz then None else Some ValueError)
          else Some OSError),
       pillow_raises = (\<lambda>img. None),
       getdata = (\<lambda>img.
          map (\<lambda>i. if even i then 0 else 255) [0 ..< nat (image_width img * image_height img)]),
       float_positive = (\<lambda>x. 0 < x),
       int_of_product = (\<lambda>n x. Inr (n * x div 1000)) \<rparr>"

definition toy_render :: "int RenderParams" where
  "toy_render =
     \<lparr> font_path = None, font_size = 9, spacing = 1, noise_lines = 1, blur_shapes = 1,
       apply_blur = True, extra_noise_shapes = 1, pixel_noise_density = 40, jitter = 1,
       gaussian_blur_radius = 1100, shape_blur_radius = 2000 \<rparr>"

definition toy_cfg :: "int AppConfig" where
  "toy_cfg =
     \<lparr> output = ''captcha.png'', print_code = False, data_url_output = None,
       code_length = 2, random_seed = Some 42, fixed_code = None,
       ascii_chars = ''$@B%8&WM# '',
       text_to_ascii =
         \<lparr> TextToAsciiParams.font_path = None, TextToAsciiParams.font_size = 1, scale = 1 \<rparr>,
       render = toy_render \<rparr>"

section \<open>Properties\<close>

subsection \<open>Facts about the building blocks\<close>



lemma bnd_Inr:
  "bnd m f s = (Inr y, s') \<longleftrightarrow> (\<exists>x s1. m s = (Inr x, s1) \<and> f x s1 = (Inr y, s'))"
  by (auto simp: bnd_def split: prod.splits sum.splits)

lemma randbelow_less: "0 < n \<Longrightarrow> fst (randbelow lib n s) < n"
  by (simp add: randbelow_def split: prod.splits)

lemma randint_Inr:
  "randint lib a b s = (Inr x, s') \<Longrightarrow> a \<le> x \<and> x \<le> b"
proof -
  assume r: "randint lib a b s = (Inr x, s')"
  then have pos: "0 < b + 1 - a" by (auto simp: randint_def split: if_splits)
  obtain k s1 where d: "randbelow lib (nat (b + 1 - a)) s = (k, s1)"
    by (cases "randbelow lib (nat (b + 1 - a)) s")
  have "k < nat (b + 1 - a)"
    using randbelow_less [of "nat (b + 1 - a)" lib s] pos d by simp
  moreover have "x = a + int k" using r pos d by (simp add: randint_def)
  ultimately show ?thesis by linarith
qed

lemma for_each_invariant:
  assumes step: "\<And>x acc s acc' s'. P acc \<Longrightarrow> body x acc s = (Inr acc', s') \<Longrightarrow> P acc'"
  shows "P acc \<Longrightarrow> for_each xs body acc s = (Inr acc', s') \<Longrightarrow> P acc'"
proof (induction xs arbitrary: acc s)
  case Nil
  then show ?case by (simp add: ret_def)
next
  case (Cons x xs)
  from Cons.prems(2) obtain a1 s1 where
    first: "body x acc s = (Inr a1, s1)" and rest: "for_each xs body a1 s1 = (Inr acc', s')"
    by (auto simp: bnd_Inr)
  have "P a1" using step [OF Cons.prems(1) first] .
  then show ?case using Cons.IH rest by blast
qed

lemma sequence_map_Inr:
  "(\<And>x. x \<in> set xs \<Longrightarrow> f x = Inr (h x)) \<Longrightarrow> sequence (map f xs) = Inr (map h xs)"
  by (induction xs) simp_all

lemma with_rng_fst:
  "fst (with_rng rng body g) = fst (body (case rng of Some s \<Rightarrow> s | None \<Rightarrow> g))"
  by (simp add: with_rng_def split: option.splits prod.splits)

lemma with_rng_Some:
  "with_rng (Some s) body g = (fst (body s), Some (snd (body s)), g)"
  by (simp add: with_rng_def split: prod.splits)

lemma pillow_Inr: "pillow lib img = Inr img' \<Longrightarrow> img' = img"
  by (simp add: pillow_def split: option.splits)

lemma pillow_not_IndexError: "pillow lib img \<noteq> Inl IndexError"
  by (simp add: pillow_def split: option.splits)

lemma image_new_Inr:
  "image_new lib m sz c = Inr img \<Longrightarrow> image_size img = sz \<and> image_mode img = m"
  by (auto simp: image_new_def split: if_splits dest: pillow_Inr)

lemma image_new_not_IndexError: "image_new lib m sz c \<noteq> Inl IndexError"
  by (simp add: image_new_def pillow_not_IndexError)

subsection \<open>Code generator\<close>








subsection \<open>Font resolver\<close>

lemma try_fonts_find:
  "[] \<notin> set paths \<Longrightarrow>
   try_fonts lib paths sz =
     Inr (case List.find (\<lambda>p. truetype_error lib p sz = None) paths of
            Some p \<Rightarrow> FreeTypeFont p sz | None \<Rightarrow> DefaultFont)"
  by (induction paths) (auto simp: truetype_def load_default_def split: option.splits)

lemma font_candidates_nonempty_paths: "[] \<notin> set (font_candidates preferred)"
  by (simp add: font_candidates_def split: option.splits)

lemma load_font_returns: "\<exists>font. load_font lib preferred sz = Inr font"
  by (simp add: load_font_def try_fonts_find font_candidates_nonempty_paths)

text \<open>
  Claim C8. For every preferred path (none, empty, missing or corrupt) and every size,
  \<^verbatim>\<open>_load_font\<close> raises nothing and returns a handle, whatever exceptions
  \<^verbatim>\<open>truetype\<close> raises on the way: the font of the first candidate that loads, and the
  built-in default font when none loads. The candidates are the preferred path, when one
  is given and not empty, and after it \<^verbatim>\<open>consola.ttf\<close>, \<^verbatim>\<open>DejaVuSansMono.ttf\<close>,
  \<^verbatim>\<open>/usr/share/fonts/truetype/dejavu/DejaVuSansMono.ttf\<close>, \<^verbatim>\<open>Menlo.ttf\<close> and
  \<^verbatim>\<open>Courier New.ttf\<close>, in this order.
\<close>

theorem load_font_total:
  "load_font lib preferred sz =
     Inr (case List.find (\<lambda>p. truetype_error lib p sz = None) (font_candidates preferred) of
            Some p \<Rightarrow> FreeTypeFont p sz
          | None \<Rightarrow> DefaultFont)
   \<and> font_candidates None =
       [''consola.ttf'', ''DejaVuSansMono.ttf'',
        ''/usr/share/fonts/truetype/dejavu/DejaVuSansMono.ttf'', ''Menlo.ttf'',
        ''Courier New.ttf'']
   \<and> font_candidates (Some []) = font_candidates None
   \<and> font_candidates (Some (c # cs)) = (c # cs) # font_candidates None"
proof -
  have "load_font lib preferred sz =
     Inr (case List.find (\<lambda>p. truetype_error lib p sz = None) (font_candidates preferred) of
            Some p \<Rightarrow> FreeTypeFont p sz
          | None \<Rightarrow> DefaultFont)"
    unfolding load_font_def
    by (rule try_fonts_find) (rule font_candidates_nonempty_paths)
  then show ?thesis by (simp add: font_candidates_def)
qed

theorem load_font_total_witness:
  "load_font toy_lib (Some ''missing.ttf'') 9 = Inr (FreeTypeFont ''DejaVuSansMono.ttf'' 9)
   \<and> load_font toy_lib (Some ''DejaVuSansMono.ttf'') 0 = Inr DefaultFont
   \<and> load_font toy_lib None 9 = Inr (FreeTypeFont ''DejaVuSansMono.ttf'' 9)"
proof -
  have a: "List.find (\<lambda>p. truetype_error toy_lib p 9 = None) (font_candidates (Some ''missing.ttf''))
      = Some ''DejaVuSansMono.ttf''"
    by code_simp
  have b: "List.find (\<lambda>p. truetype_error toy_lib p 0 = None)
      (font_candidates (Some ''DejaVuSansMono.ttf'')) = None"
    by code_simp
  have c: "List.find (\<lambda>p. truetype_error toy_lib p 9 = None) (font_candidates None)
      = Some ''DejaVuSansMono.ttf''"
    by code_simp
  have x: "load_font toy_lib (Some ''missing.ttf'') 9 = Inr (FreeTypeFont ''DejaVuSansMono.ttf'' 9)"
    using load_font_total [of toy_lib "Some ''missing.ttf''" 9, THEN conjunct1]
    unfolding a by simp
  have y: "load_font toy_lib (Some ''DejaVuSansMono.ttf'') 0 = Inr DefaultFont"
    using load_font_total [of toy_lib "Some ''DejaVuSansMono.ttf''" 0, THEN conjunct1]
    unfolding b by simp
  have z: "load_font toy_lib None 9 = Inr (FreeTypeFont ''DejaVuSansMono.ttf'' 9)"
    using load_font_total [of toy_lib None 9, THEN conjunct1]
    unfolding c by simp
  show ?thesis using x y z by simp
qed

subsection \<open>ASCII mapper\<close>

lemma palette_index_bounds:
  assumes "1 \<le> length pal" "0 \<le> p" "p \<le> 255"
  shows "0 \<le> palette_index pal p" "palette_index pal p < int (length pal)"
proof -
  let ?m = "int (length pal) - 1"
  have m: "0 \<le> ?m" using assms(1) by (cases pal) simp_all
  show "0 \<le> palette_index pal p"
    unfolding palette_index_def using m assms(2) by (simp add: pos_imp_zdiv_nonneg_iff)
  have "p * ?m \<le> 255 * ?m" using assms(3) m by (rule mult_right_mono)
  then have "p * ?m div 255 \<le> 255 * ?m div 255" by (rule zdiv_mono1) simp
  then show "palette_index pal p < int (length pal)"
    unfolding palette_index_def by simp
qed

lemma palette_index_mono:
  assumes "1 \<le> length pal" "p \<le> q"
  shows "palette_index pal p \<le> palette_index pal q"
proof -
  have "p * (int (length pal) - 1) \<le> q * (int (length pal) - 1)"
    using assms by (intro mult_right_mono) (cases pal; simp)+
  then show ?thesis unfolding palette_index_def by (rule zdiv_mono1) simp
qed

lemma map_pixel_in_range:
  assumes "1 \<le> length pal" "0 \<le> p" "p \<le> 255"
  shows "map_pixel pal p = Inr (pal ! nat (palette_index pal p))"
  using palette_index_bounds [OF assms]
  by (simp add: map_pixel_def getitem_def Let_def)

lemma sequence_replicate: "sequence (replicate n (Inr x)) = Inr (replicate n x)"
  by (induction n) simp_all

lemma map_pixels_replicate:
  "map_pixel pal p = Inr c \<Longrightarrow> map_pixels pal (replicate n p) = Inr (replicate n c)"
  by (simp add: map_pixels_def sequence_replicate)

text \<open>
  Claim C3. For a palette of at least two characters, every luminance \<open>p\<close> of 0 to 255 is
  mapped to the palette character at index \<open>p * (length - 1) div 255\<close>, which is within
  the palette; a grid of zeros is mapped to the first character only, a grid of 255s to the
  last character only, and the index grows with the luminance.
\<close>

theorem ascii_mapper_index:
  assumes "2 \<le> length pal"
  shows "(\<forall>p. 0 \<le> p \<and> p \<le> 255 \<longrightarrow>
            map_pixel pal p = Inr (pal ! nat (p * (int (length pal) - 1) div 255))
            \<and> nat (p * (int (length pal) - 1) div 255) < length pal)
       \<and> (\<forall>n. map_pixels pal (replicate n 0) = Inr (replicate n (hd pal)))
       \<and> (\<forall>n. map_pixels pal (replicate n 255) = Inr (replicate n (last pal)))
       \<and> (\<forall>p q. p \<le> q \<longrightarrow> palette_index pal p \<le> palette_index pal q)"
proof -
  have one: "1 \<le> length pal" using assms by simp
  have ne: "pal \<noteq> []" using assms by auto
  have a: "map_pixel pal p = Inr (pal ! nat (p * (int (length pal) - 1) div 255))
      \<and> nat (p * (int (length pal) - 1) div 255) < length pal"
    if "0 \<le> p" "p \<le> 255" for p
    using map_pixel_in_range [OF one that] palette_index_bounds [OF one that]
    by (simp add: palette_index_def)
  have black: "map_pixel pal 0 = Inr (hd pal)"
    using map_pixel_in_range [OF one, of 0] ne by (simp add: palette_index_def hd_conv_nth)
  have top: "palette_index pal 255 = int (length pal) - 1"
    by (simp add: palette_index_def)
  have white: "map_pixel pal 255 = Inr (last pal)"
  proof -
    have "nat (int (length pal) - 1) = length pal - 1" by simp
    then show ?thesis
      using map_pixel_in_range [OF one, of 255] ne top
      by (simp add: last_conv_nth)
  qed
  show ?thesis
    using a map_pixels_replicate [OF black] map_pixels_replicate [OF white]
      palette_index_mono [OF one]
    by blast
qed

theorem ascii_mapper_index_witness:
  "2 \<le> length ASCII_CHARS
   \<and> map_pixel ASCII_CHARS 128 = Inr CHR ''8''
   \<and> map_pixels ASCII_CHARS (replicate 3 0) = Inr ''$$$''
   \<and> map_pixels ASCII_CHARS (replicate 3 255) = Inr ''   ''
   \<and> palette_index ASCII_CHARS 100 \<le> palette_index ASCII_CHARS 200"
proof -
  have len: "2 \<le> length ASCII_CHARS" by (simp add: ASCII_CHARS_def)
  have px: "map_pixel ASCII_CHARS 128 = Inr CHR ''8''" by code_simp
  have ends: "hd ASCII_CHARS = CHR ''$''" "last ASCII_CHARS = CHR '' ''"
    by (simp_all add: ASCII_CHARS_def)
  have three: "replicate 3 c = [c, c, c]" for c :: char by (simp add: numeral_3_eq_3)
  show ?thesis
    using ascii_mapper_index [OF len] len px ends three by simp
qed

lemma uint_byte: "0 \<le> uint (p :: 8 word) \<and> uint p \<le> 255"
  using uint_lt2p [of p] by simp

lemma map_pixels_bytes:
  assumes "1 \<le> length pal"
  shows "map_pixels pal (map uint (ps :: 8 word list))
       = Inr (map (\<lambda>p. pal ! nat (palette_index pal (uint p))) ps)"
  unfolding map_pixels_def map_map
  by (rule sequence_map_Inr) (simp add: map_pixel_in_range [OF assms] uint_byte)

lemma slice_rows_subset: "row \<in> set (slice_rows w s) \<Longrightarrow> set row \<subseteq> set s"
  by (auto simp: slice_rows_def dest: in_set_takeD in_set_dropD)

lemma glyph_image_not_IndexError:
  fixes lib :: "('r, 'f) pylib"
  shows "glyph_image lib font fs sc ch \<noteq> Inl IndexError"
proof (cases "image_new lib ''L'' (fs * 2, fs * 2) (Level 255) :: error + 'f image")
  case (Inl e)
  then show ?thesis
    using image_new_not_IndexError [of lib "''L''" "(fs * 2, fs * 2)" "Level 255"]
    by (auto simp: glyph_image_def)
next
  case new: (Inr img)
  show ?thesis
  proof (cases "pillow lib (DrawText img (10, 10) ch font (Level 0))")
    case (Inl e)
    then show ?thesis
      using new pillow_not_IndexError [of lib "DrawText img (10, 10) ch font (Level 0)"]
      by (auto simp: glyph_image_def)
  next
    case (Inr drawn)
    then show ?thesis
      using new pillow_not_IndexError [of lib]
      by (auto simp: glyph_image_def)
  qed
qed

lemma ascii_block_of_glyph:
  assumes "1 \<le> length pal" and "glyph_image lib font fs sc ch = Inr img"
  shows "ascii_block lib font fs sc pal ch =
     Inr (slice_rows (nat (image_width img))
            (map (\<lambda>p. pal ! nat (palette_index pal (uint p))) (getdata lib img)))"
  using assms by (simp add: ascii_block_def map_pixels_bytes)

lemma ascii_block_chars:
  assumes "1 \<le> length pal" and "ascii_block lib font fs sc pal ch = Inr rows"
    and "row \<in> set rows"
  shows "set row \<subseteq> set pal"
proof -
  obtain img where glyph: "glyph_image lib font fs sc ch = Inr img"
    using assms(2) by (auto simp: ascii_block_def split: sum.splits)
  let ?f = "\<lambda>p :: 8 word. pal ! nat (palette_index pal (uint p))"
  have "rows = slice_rows (nat (image_width img)) (map ?f (getdata lib img))"
    using assms(2) unfolding ascii_block_of_glyph [OF assms(1) glyph] by simp
  then have "set row \<subseteq> set (map ?f (getdata lib img))"
    using assms(3) slice_rows_subset by blast
  then have sub: "set row \<subseteq> range ?f" by auto
  have "?f p \<in> set pal" for p
    using palette_index_bounds [OF assms(1), of "uint p"] uint_byte [of p] by simp
  then show ?thesis using sub by blast
qed

text \<open>
  Claim C7. For a palette of exactly two characters, every luminance of 0 to 255 has index
  0 or 1 and is mapped to one of the two characters; a glyph block never raises
  IndexError, and every block returned holds the two palette characters only.
\<close>

theorem two_character_palette:
  assumes "length pal = 2"
  shows "(\<forall>p. 0 \<le> p \<and> p \<le> 255 \<longrightarrow>
            (palette_index pal p = 0 \<or> palette_index pal p = 1)
          \<and> (map_pixel pal p = Inr (pal ! 0) \<or> map_pixel pal p = Inr (pal ! 1)))
       \<and> ascii_block lib font fs sc pal ch \<noteq> Inl IndexError
       \<and> (\<forall>rows. ascii_block lib font fs sc pal ch = Inr rows \<longrightarrow>
            (\<forall>row \<in> set rows. set row \<subseteq> {pal ! 0, pal ! 1}))"
proof -
  have one: "1 \<le> length pal" using assms by simp
  have pal: "set pal = {pal ! 0, pal ! 1}"
    using assms by (cases pal; cases "tl pal") auto
  have idx: "palette_index pal p = 0 \<or> palette_index pal p = 1" if "0 \<le> p" "p \<le> 255" for p
    using palette_index_bounds [OF one that] assms by auto
  have px: "map_pixel pal p = Inr (pal ! 0) \<or> map_pixel pal p = Inr (pal ! 1)"
    if "0 \<le> p" "p \<le> 255" for p
    using idx [OF that] map_pixel_in_range [OF one that] by auto
  have ret: "\<exists>rows. ascii_block lib font fs sc pal ch = Inr rows"
    if "glyph_image lib font fs sc ch = Inr img" for img
    using ascii_block_of_glyph [OF one that] by simp
  have noerr: "ascii_block lib font fs sc pal ch \<noteq> Inl IndexError"
  proof (cases "glyph_image lib font fs sc ch")
    case (Inl e)
    then show ?thesis
      using glyph_image_not_IndexError [of lib font fs sc ch] by (auto simp: ascii_block_def)
  next
    case (Inr img)
    then show ?thesis using ret by auto
  qed
  have chars: "\<forall>row \<in> set rows. set row \<subseteq> {pal ! 0, pal ! 1}"
    if "ascii_block lib font fs sc pal ch = Inr rows" for rows
    using ascii_block_chars [OF one that] pal by auto
  show ?thesis using idx px noerr chars by blast
qed

theorem two_character_palette_witness:
  "length ''# '' = 2
   \<and> ascii_block toy_lib DefaultFont 1 1 ''# '' CHR ''A'' = Inr [''# '', ''# '']
   \<and> set ''# '' \<subseteq> {''# '' ! 0, ''# '' ! 1}
   \<and> map_pixel ''# '' 254 = Inr CHR ''#'' \<and> map_pixel ''# '' 255 = Inr CHR '' ''"
proof -
  have len: "length ''# '' = 2" by simp
  have run: "ascii_block toy_lib DefaultFont 1 1 ''# '' CHR ''A'' = Inr [''# '', ''# '']"
    by code_simp
  have px: "map_pixel ''# '' 254 = Inr CHR ''#''" "map_pixel ''# '' 255 = Inr CHR '' ''"
    by code_simp+
  show ?thesis
    using two_character_palette [OF len, of toy_lib DefaultFont 1 1 "CHR ''A''"] run px
    by simp
qed




subsection \<open>Degenerate codes\<close>

lemma combine_blocks_empty: "combine_blocks [] = Inl IndexError"
  by (simp add: combine_blocks_def getitem_def)

lemma empty_code_blank_image:
  "text_to_ascii_lines lib [] fp fs sc pal = Inr []
   \<and> fst (make_image lib [] params rng g) = pillow lib (New ''RGB'' (2, 2) (Named ''white''))"
  by (simp add: text_to_ascii_lines_def make_image_def with_rng_fst render_lines_def lift_def
      image_new_def)

lemma empty_code_blank_image_example:
  "fst (make_image toy_lib [] toy_render None 0) = Inr (New ''RGB'' (2, 2) (Named ''white''))"
  by code_simp

text \<open>
  Claim C1 holds for the empty code (\<open>empty_code_blank_image\<close>: no line, and the 2 by 2
  white image as soon as Pillow makes it) and fails for a code of spaces: the guard
  \<^verbatim>\<open>if not text\<close> lets it pass, \<^verbatim>\<open>replace\<close> removes every character, and
  \<^verbatim>\<open>blocks[0]\<close> raises IndexError on the empty list of blocks, before \<^verbatim>\<open>make_image\<close> is
  reached.
\<close>

theorem all_spaces_code_raises:
  assumes "text \<noteq> []" and "set text \<subseteq> {CHR '' ''}"
  shows "text_to_ascii_lines lib text fp fs sc pal = Inl IndexError
       \<and> generate_image_from_cfg lib (cfg\<lparr>fixed_code := Some text\<rparr>) g = (Inl IndexError, g)"
proof -
  have "filter (\<lambda>ch. ch \<noteq> CHR '' '') text = []"
    using assms(2) by (auto simp: filter_empty_conv)
  then have raise: "text_to_ascii_lines lib text fp fs sc pal = Inl IndexError"
    for fp fs sc pal
    using assms(1) load_font_returns [of lib fp fs]
    by (auto simp: text_to_ascii_lines_def combine_blocks_empty)
  show ?thesis
    using assms(1) raise by (simp add: generate_image_from_cfg_def)
qed

theorem all_spaces_code_raises_witness:
  "''   '' \<noteq> [] \<and> set ''   '' \<subseteq> {CHR '' ''}
   \<and> text_to_ascii_lines toy_lib ''   '' None 40 2 ASCII_CHARS = Inl IndexError
   \<and> fst (generate_image_from_cfg toy_lib (toy_cfg\<lparr>fixed_code := Some ''   ''\<rparr>) 0) = Inl IndexError"
proof -
  have a: "''   '' \<noteq> []" by simp
  have b: "set ''   '' \<subseteq> {CHR '' ''}" by simp
  show ?thesis
    using all_spaces_code_raises [OF a b, of toy_lib None 40 2 ASCII_CHARS toy_cfg 0] by simp
qed

subsection \<open>Distortion renderer\<close>



lemma blur_shape_canvas:
  "blur_shape lib w h img s = (Inr img', s') \<Longrightarrow>
   image_size img' = image_size img \<and> image_mode img' = image_mode img"
  by (auto simp: blur_shape_def bnd_Inr lift_def dest!: pillow_Inr split: if_splits)

lemma extra_shape_canvas:
  "extra_shape lib w h img s = (Inr img', s') \<Longrightarrow>
   image_size img' = image_size img \<and> image_mode img' = image_mode img"
  by (auto simp: extra_shape_def bnd_Inr lift_def Let_def dest!: pillow_Inr split: if_splits)



lemma repeat_canvas:
  assumes step: "\<And>acc t acc' t'. body acc t = (Inr acc', t') \<Longrightarrow>
      image_size acc' = image_size acc \<and> image_mode acc' = image_mode acc"
    and run: "repeat n body img s = (Inr img', s')"
  shows "image_size img' = image_size img \<and> image_mode img' = image_mode img"
proof -
  let ?P = "\<lambda>i. image_size i = image_size img \<and> image_mode i = image_mode img"
  show ?thesis
    using run unfolding repeat_def
    by (rule for_each_invariant [where P = ?P, rotated 2]) (auto dest: step)
qed

lemma shape_layer_canvas:
  assumes "shape_layer lib params w h s = (Inr shape, s')"
  shows "image_size shape = (w, h) \<and> image_mode shape = ''RGBA''"
proof -
  from assms obtain s0 s1 t1 s2 t2 where
    new: "image_new lib ''RGBA'' (w, h) (Tuple [255, 255, 255, 0]) = Inr s0"
    and blur: "repeat (blur_shapes params) (blur_shape lib w h) s0 s = (Inr s1, t1)"
    and extra: "repeat (extra_noise_shapes params) (extra_shape lib w h) s1 t1 = (Inr s2, t2)"
    and out: "image_size shape = image_size s2 \<and> image_mode shape = image_mode s2"
    by (auto simp: shape_layer_def bnd_Inr lift_def ret_def dest!: pillow_Inr
        split: if_splits)
  have "image_size s0 = (w, h) \<and> image_mode s0 = ''RGBA''"
    using image_new_Inr [OF new] .
  moreover have "image_size s1 = image_size s0 \<and> image_mode s1 = image_mode s0"
    using blur by (rule repeat_canvas [rotated]) (rule blur_shape_canvas)
  moreover have "image_size s2 = image_size s1 \<and> image_mode s2 = image_mode s1"
    using extra by (rule repeat_canvas [rotated]) (rule extra_shape_canvas)
  ultimately show ?thesis using out by auto
qed





subsection \<open>The generation entry point\<close>

text \<open>
  Claim C2. When the configuration gives a seed, the result of
  \<^verbatim>\<open>generate_image_from_cfg\<close> (the image and the code, or the exception) is the same
  whatever the state of the generator the process shares, so two calls with the same
  configuration return the same image; the shared generator is left as it was.
\<close>

theorem seeded_generation_deterministic:
  assumes "random_seed cfg = Some seed"
  shows "fst (generate_image_from_cfg lib cfg g1) = fst (generate_image_from_cfg lib cfg g2)
       \<and> snd (generate_image_from_cfg lib cfg g1) = g1"
  using assms
  by (simp add: generate_image_from_cfg_def generate_code_def make_image_def with_rng_Some
      Let_def split: option.splits sum.splits prod.splits)

lemma toy_run:
  "map_sum id snd (fst (generate_image_from_cfg toy_lib toy_cfg 0)) = Inr ''GH''"
  by code_simp

theorem seeded_generation_deterministic_witness:
  "random_seed toy_cfg = Some 42
   \<and> fst (generate_image_from_cfg toy_lib toy_cfg 0) = fst (generate_image_from_cfg toy_lib toy_cfg 7)
   \<and> snd (generate_image_from_cfg toy_lib toy_cfg 0) = 0
   \<and> map_sum id snd (fst (generate_image_from_cfg toy_lib toy_cfg 0)) = Inr ''GH''"
proof -
  have seed: "random_seed toy_cfg = Some 42" by (simp add: toy_cfg_def)
  show ?thesis
    using seeded_generation_deterministic [OF seed, of toy_lib 0 7] seed toy_run by simp
qed

lemma unseeded_run_differs:
  "fst (generate_image_from_cfg toy_lib (toy_cfg\<lparr>random_seed := None\<rparr>) 0)
     \<noteq> fst (generate_image_from_cfg toy_lib (toy_cfg\<lparr>random_seed := None\<rparr>) 7)"
  by code_simp

text \<open>
  Claim C5, as stated, fails at the empty string: \<^verbatim>\<open>cfg.fixed_code or generate_code(...)\<close>
  takes an empty fixed code for a missing one, and the code returned is a generated one.
\<close>

theorem empty_fixed_code_is_replaced:
  "map_sum id snd (fst (generate_image_from_cfg toy_lib (toy_cfg\<lparr>fixed_code := Some ''''\<rparr>) 0))
     = Inr ''GH''"
  by code_simp

text \<open>
  Claim C5, amended. For every fixed code that is not empty, \<^verbatim>\<open>generate_image_from_cfg\<close>
  does not call the code generator: it renders the fixed code, with the generator the
  seed gives in its initial state, and every result it returns has the fixed code,
  unchanged, as its code. An empty fixed code is treated like an absent one: the call
  does what it does without a fixed code.
\<close>

theorem nonempty_fixed_code_passes_through:
  "(fixed_code cfg = Some c \<and> c \<noteq> [] \<longrightarrow>
      generate_image_from_cfg lib cfg g =
           (case text_to_ascii_lines lib c
                   (TextToAsciiParams.font_path (text_to_ascii cfg))
                   (TextToAsciiParams.font_size (text_to_ascii cfg))
                   (scale (text_to_ascii cfg))
                   (ascii_chars cfg) of
              Inl e \<Rightarrow> (Inl e, g)
            | Inr ascii_lines \<Rightarrow>
                (case make_image lib ascii_lines (render cfg)
                        (map_option (seeded lib) (random_seed cfg)) g of
                   (Inl e, rng', g') \<Rightarrow> (Inl e, g')
                 | (Inr img, rng', g') \<Rightarrow> (Inr (img, c), g')))
       \<and> (\<forall>img code. fst (generate_image_from_cfg lib cfg g) = Inr (img, code) \<longrightarrow> code = c))
   \<and> (fixed_code cfg = Some [] \<longrightarrow>
        generate_image_from_cfg lib cfg g
          = generate_image_from_cfg lib (cfg\<lparr>fixed_code := None\<rparr>) g)"
proof (intro conjI impI)
  assume "fixed_code cfg = Some []"
  then show "generate_image_from_cfg lib cfg g
      = generate_image_from_cfg lib (cfg\<lparr>fixed_code := None\<rparr>) g"
    by (simp add: generate_image_from_cfg_def Let_def split: prod.splits sum.splits)
next
  assume fixed: "fixed_code cfg = Some c \<and> c \<noteq> []"
  show eq: "generate_image_from_cfg lib cfg g =
           (case text_to_ascii_lines lib c
                   (TextToAsciiParams.font_path (text_to_ascii cfg))
                   (TextToAsciiParams.font_size (text_to_ascii cfg))
                   (scale (text_to_ascii cfg))
                   (ascii_chars cfg) of
              Inl e \<Rightarrow> (Inl e, g)
            | Inr ascii_lines \<Rightarrow>
                (case make_image lib ascii_lines (render cfg)
                        (map_option (seeded lib) (random_seed cfg)) g of
                   (Inl e, rng', g') \<Rightarrow> (Inl e, g')
                 | (Inr img, rng', g') \<Rightarrow> (Inr (img, c), g')))"
    using fixed
    by (simp add: generate_image_from_cfg_def Let_def split: sum.splits prod.splits)
  show "\<forall>img code. fst (generate_image_from_cfg lib cfg g) = Inr (img, code) \<longrightarrow> code = c"
    unfolding eq by (auto split: sum.splits prod.splits)
qed

theorem nonempty_fixed_code_passes_through_witness:
  "fixed_code (toy_cfg\<lparr>fixed_code := Some ''A''\<rparr>) = Some ''A'' \<and> ''A'' \<noteq> []
   \<and> map_sum id snd (fst (generate_image_from_cfg toy_lib (toy_cfg\<lparr>fixed_code := Some ''A''\<rparr>) 0))
       = Inr ''A''
   \<and> fixed_code (toy_cfg\<lparr>fixed_code := Some ''''\<rparr>) = Some ''''
   \<and> generate_image_from_cfg toy_lib (toy_cfg\<lparr>fixed_code := Some ''''\<rparr>) 0
       = generate_image_from_cfg toy_lib toy_cfg 0"
proof -
  have run: "map_sum id snd
      (fst (generate_image_from_cfg toy_lib (toy_cfg\<lparr>fixed_code := Some ''A''\<rparr>) 0)) = Inr ''A''"
    by code_simp
  have none: "toy_cfg\<lparr>fixed_code := None\<rparr> = toy_cfg" by (simp add: toy_cfg_def)
  have a: "fixed_code (toy_cfg\<lparr>fixed_code := Some ''A''\<rparr>) = Some ''A'' \<and> ''A'' \<noteq> []"
    by simp
  have code: "code = ''A''"
    if "fst (generate_image_from_cfg toy_lib (toy_cfg\<lparr>fixed_code := Some ''A''\<rparr>) 0)
          = Inr (img, code)" for img code
    using nonempty_fixed_code_passes_through
        [of "toy_cfg\<lparr>fixed_code := Some ''A''\<rparr>" "''A''" toy_lib 0] a that
    by blast
  show ?thesis
    using nonempty_fixed_code_passes_through
        [of "toy_cfg\<lparr>fixed_code := Some ''''\<rparr>" "''A''" toy_lib 0]
      run none
    by simp
qed

end
